theory Spec2Isabelle
  imports Complex_Main
begin

section \<open>Numbers of the array libraries\<close>

text \<open>
  The simulator of \<^verbatim>\<open>montecarlo.py\<close> computes with the double-precision numbers of
  pandas and numpy. They are embedded as exact reals extended with the two infinities and
  with NaN, the three special values the code can meet (a missing cell of a table is NaN,
  a division by a zero price is an infinity). The arithmetic follows IEEE 754 on the
  special values and is exact on the finite ones: rounding, overflow of a finite
  operation and the sign of zero are not part of the embedding.
\<close>

datatype fval = Fin real | PInf | NInf | NaN

fun fneg :: "fval \<Rightarrow> fval" where
  "fneg (Fin a) = Fin (- a)"
| "fneg PInf = NInf"
| "fneg NInf = PInf"
| "fneg NaN = NaN"

fun fadd :: "fval \<Rightarrow> fval \<Rightarrow> fval" where
  "fadd (Fin a) (Fin b) = Fin (a + b)"
| "fadd NaN _ = NaN"
| "fadd _ NaN = NaN"
| "fadd PInf NInf = NaN"
| "fadd NInf PInf = NaN"
| "fadd PInf _ = PInf"
| "fadd _ PInf = PInf"
| "fadd NInf _ = NInf"
| "fadd _ NInf = NInf"

definition fsub :: "fval \<Rightarrow> fval \<Rightarrow> fval" where
  "fsub a b = fadd a (fneg b)"

text \<open>The infinity with the sign of a finite factor; a zero factor gives NaN.\<close>

definition signed_inf :: "real \<Rightarrow> fval" where
  "signed_inf a = (if a = 0 then NaN else if 0 < a then PInf else NInf)"

fun fmul :: "fval \<Rightarrow> fval \<Rightarrow> fval" where
  "fmul (Fin a) (Fin b) = Fin (a * b)"
| "fmul NaN _ = NaN"
| "fmul _ NaN = NaN"
| "fmul (Fin a) PInf = signed_inf a"
| "fmul (Fin a) NInf = signed_inf (- a)"
| "fmul PInf (Fin b) = signed_inf b"
| "fmul NInf (Fin b) = signed_inf (- b)"
| "fmul PInf PInf = PInf"
| "fmul NInf NInf = PInf"
| "fmul PInf NInf = NInf"
| "fmul NInf PInf = NInf"

fun fdiv :: "fval \<Rightarrow> fval \<Rightarrow> fval" where
  "fdiv (Fin a) (Fin b) = (if b = 0 then signed_inf a else Fin (a / b))"
| "fdiv NaN _ = NaN"
| "fdiv _ NaN = NaN"
| "fdiv (Fin a) PInf = Fin 0"
| "fdiv (Fin a) NInf = Fin 0"
| "fdiv PInf (Fin b) = (if 0 \<le> b then PInf else NInf)"
| "fdiv NInf (Fin b) = (if 0 \<le> b then NInf else PInf)"
| "fdiv _ _ = NaN"

fun fsqrt :: "fval \<Rightarrow> fval" where
  "fsqrt (Fin a) = (if a < 0 then NaN else Fin (sqrt a))"
| "fsqrt PInf = PInf"
| "fsqrt NInf = NaN"
| "fsqrt NaN = NaN"

text \<open>
  The exponential, exact on a finite argument. numpy's overflows to the infinity where the
  exact value is beyond the largest double (see \<open>as_float64\<close> below).
\<close>

fun fexp :: "fval \<Rightarrow> fval" where
  "fexp (Fin a) = Fin (exp a)"
| "fexp PInf = PInf"
| "fexp NInf = Fin 0"
| "fexp NaN = NaN"

text \<open>
  What a finite result of the exact arithmetic becomes when it is stored as a double: a
  magnitude beyond the largest double, \<^verbatim>\<open>(2 - 2**-52) * 2**1023\<close>, is an
  infinity. numpy's \<^verbatim>\<open>exp\<close> overflows so for arguments above about 709.78. The
  operations above do not overflow; \<open>as_float64\<close> tells where the code's do.
\<close>

definition float64_max :: real where
  "float64_max = (2 - 1 / 2 ^ 52) * 2 ^ 1023"

definition as_float64 :: "fval \<Rightarrow> fval" where
  "as_float64 v =
     (case v of
        Fin x \<Rightarrow> if float64_max < x then PInf else if x < - float64_max then NInf else Fin x
      | _ \<Rightarrow> v)"

text \<open>The order of the numbers; a comparison with NaN is false.\<close>

fun fle :: "fval \<Rightarrow> fval \<Rightarrow> bool" where
  "fle NaN _ = False"
| "fle _ NaN = False"
| "fle NInf _ = True"
| "fle _ PInf = True"
| "fle (Fin a) (Fin b) = (a \<le> b)"
| "fle _ _ = False"

text \<open>Sum of a one-dimensional array; the sum of no value is 0.\<close>

fun fsum :: "fval list \<Rightarrow> fval" where
  "fsum [] = Fin 0"
| "fsum (x # xs) = fadd x (fsum xs)"

section \<open>Errors\<close>

text \<open>
  The exceptions the code can raise: the two \<^verbatim>\<open>ValueError\<close>s of the class itself,
  and the ones of the libraries it calls (\<^verbatim>\<open>numpy.random.randn\<close> on a negative
  dimension, a reduction of an empty array, an index into an empty array, a missing
  column).
\<close>

datatype message =
    Missing_column                \<comment> \<open>CSV must contain either 'pnl_pct' or 'close' column.\<close>
  | Run_simulate_before_summary   \<comment> \<open>Run simulate() before summary().\<close>
  | Negative_dimensions           \<comment> \<open>negative dimensions are not allowed\<close>
  | Zero_size_reduction           \<comment> \<open>zero-size array to reduction operation\<close>

datatype error = ValueError message | IndexError | KeyError

section \<open>Tables and series\<close>

text \<open>
  A pandas series of floats is the list of its cells; a data frame is the list of its
  columns in order, each with its name. The embedding covers the tables whose cells are
  floats (a missing cell is NaN) and whose column names are distinct. Outside it pandas
  has errors of its own, which the constructor lets through: \<^verbatim>\<open>astype(float)\<close>
  raises \<^verbatim>\<open>ValueError\<close> on a cell that is no number, and with a repeated column name
  \<^verbatim>\<open>df[c]\<close> is a sub-frame, which \<^verbatim>\<open>df['pnl_pct'] = ...\<close> refuses with a
  \<^verbatim>\<open>ValueError\<close>. The statements that promise a successful construction assume
  distinct column names.
\<close>

type_synonym series = "fval list"
type_synonym dataframe = "(string \<times> series) list"

definition columns :: "dataframe \<Rightarrow> string list" where
  "columns df = map fst df"

text \<open>
  \<^verbatim>\<open>df[c]\<close> on a table with distinct column names: the column of that name, and
  \<^verbatim>\<open>KeyError\<close> on a missing column.
\<close>

definition getitem :: "dataframe \<Rightarrow> string \<Rightarrow> error + series" where
  "getitem df c = (case map_of df c of None \<Rightarrow> Inl KeyError | Some col \<Rightarrow> Inr col)"

text \<open>\<^verbatim>\<open>df[c] = col\<close>: replaces the column, or appends it when the table has none of that name.\<close>

definition setitem :: "dataframe \<Rightarrow> string \<Rightarrow> series \<Rightarrow> dataframe" where
  "setitem df c col =
     (if c \<in> set (columns df) then map (\<lambda>(k, v). if k = c then (k, col) else (k, v)) df
      else df @ [(c, col)])"

text \<open>Forward fill: a missing cell takes the last value before it, if there is one.\<close>

fun ffill_from :: "fval \<Rightarrow> series \<Rightarrow> series" where
  "ffill_from prev [] = []"
| "ffill_from prev (x # xs) =
     (if x = NaN then prev # ffill_from prev xs else x # ffill_from x xs)"

definition shift :: "series \<Rightarrow> series" where
  "shift xs = take (length xs) (NaN # xs)"

text \<open>
  \<^verbatim>\<open>Series.pct_change()\<close> with its defaults: each cell is divided by its
  predecessor, minus 1. The first cell has no predecessor and is NaN. Up to pandas 2 the
  default forward fills the missing prices first, as here; pandas 3 does not. The two
  agree on a price series without missing cells, and no statement below depends on the
  fill.
\<close>

definition pct_change :: "series \<Rightarrow> series" where
  "pct_change xs =
     (let data = ffill_from NaN xs
      in map (\<lambda>(c, p). fsub (fdiv c p) (Fin 1)) (zip data (shift data)))"

definition dropna :: "series \<Rightarrow> series" where
  "dropna xs = filter (\<lambda>x. x \<noteq> NaN) xs"

text \<open>\<^verbatim>\<open>astype(float)\<close> on a column of floats, where it changes nothing.\<close>

definition astype_float :: "series \<Rightarrow> series" where
  "astype_float xs = xs"

text \<open>\<^verbatim>\<open>Series.mean()\<close>: the sum over the count, NaN for an empty series.\<close>

definition series_mean :: "series \<Rightarrow> fval" where
  "series_mean xs =
     (if length xs = 0 then NaN else fdiv (fsum xs) (Fin (real (length xs))))"

text \<open>
  \<^verbatim>\<open>Series.std()\<close>, with pandas' default of one delta degree of freedom: NaN when
  the count does not exceed it, else the root of the sum of the squared deviations from
  the mean over the count minus one.
\<close>

definition series_std :: "series \<Rightarrow> fval" where
  "series_std xs =
     (let count = length xs; ddof = 1
      in if count \<le> ddof then NaN
         else let avg = fdiv (fsum xs) (Fin (real count));
                  sqr = map (\<lambda>v. fmul (fsub avg v) (fsub avg v)) xs
              in fsqrt (fdiv (fsum sqr) (Fin (real (count - ddof)))))"

section \<open>The simulator\<close>

type_synonym matrix = "fval list list"

record simulator =
  returns :: series
  mu :: fval
  sigma :: fval
  initial_capital :: fval
  n_days :: int
  n_simulations :: int
  simulated_paths :: "matrix option"

text \<open>
  \<^verbatim>\<open>MonteCarloGBMSimulator.__init__\<close>. The table is the caller's object (the
  statement \<^verbatim>\<open>df = df\<close> makes no copy), so the constructor returns it next to the
  new instance, as the caller finds it afterwards.
\<close>

definition init :: "dataframe \<Rightarrow> fval \<Rightarrow> int \<Rightarrow> int \<Rightarrow> fval \<Rightarrow> error + dataframe \<times> simulator" where
  "init df capital days simulations volatility_multiplier =
     (case (if ''pnl_pct'' \<notin> set (columns df) then
              (if ''close'' \<notin> set (columns df) then Inl (ValueError Missing_column)
               else (case getitem df ''close'' of
                       Inl e \<Rightarrow> Inl e
                     | Inr close \<Rightarrow> Inr (setitem df ''pnl_pct'' (pct_change close))))
            else Inr df) of
        Inl e \<Rightarrow> Inl e
      | Inr df1 \<Rightarrow>
          (case getitem df1 ''pnl_pct'' of
             Inl e \<Rightarrow> Inl e
           | Inr col \<Rightarrow>
               (let rs = astype_float (dropna col)
                in Inr (df1,
                     \<lparr> returns = rs,
                       mu = series_mean rs,
                       sigma = fmul (series_std rs) volatility_multiplier,
                       initial_capital = capital,
                       n_days = days,
                       n_simulations = simulations,
                       simulated_paths = None \<rparr>))))"

text \<open>The constructor called without a volatility multiplier: the default is 1.0.\<close>

definition init_default :: "dataframe \<Rightarrow> fval \<Rightarrow> int \<Rightarrow> int \<Rightarrow> error + dataframe \<times> simulator" where
  "init_default df capital days simulations = init df capital days simulations (Fin 1)"

section \<open>Path generation\<close>

text \<open>
  \<^verbatim>\<open>numpy.random.randn(d0, d1)\<close>. The draws of the global generator are a
  parameter: \<open>z t n\<close> is the standard-normal draw for cell \<open>[t, n]\<close>, a finite number.
  numpy rejects a negative dimension and accepts a zero one (an empty array). It also
  rejects dimensions beyond its size limit, which is left out here and stated apart as
  \<open>within_size_limit\<close>.
\<close>

definition randn :: "(nat \<Rightarrow> nat \<Rightarrow> real) \<Rightarrow> int \<Rightarrow> int \<Rightarrow> error + matrix" where
  "randn z d0 d1 =
     (if d0 < 0 \<or> d1 < 0 then Inl (ValueError Negative_dimensions)
      else Inr (map (\<lambda>t. map (\<lambda>n. Fin (z t n)) [0..<nat d1]) [0..<nat d0]))"

text \<open>
  numpy's size rule, which \<open>randn\<close> leaves out: every dimension is a signed 64-bit
  integer, and the bytes of the array (8 a cell, counted over the dimensions that are not
  zero) stay below \<^verbatim>\<open>2**63\<close>. Beyond it numpy raises a \<^verbatim>\<open>ValueError\<close> of its own;
  within it an allocation can still fail for lack of memory, which is the machine's. The
  statements about failure are made within this limit.
\<close>

definition within_size_limit :: "int \<Rightarrow> int \<Rightarrow> bool" where
  "within_size_limit d0 d1 \<longleftrightarrow>
     - (2 ^ 63) \<le> d0 \<and> d0 < 2 ^ 63 \<and> - (2 ^ 63) \<le> d1 \<and> d1 < 2 ^ 63
     \<and> max 1 d0 * max 1 d1 * 8 < 2 ^ 63"

text \<open>The draws that are all the same number, for concrete runs.\<close>

definition constant_draws :: "real \<Rightarrow> nat \<Rightarrow> nat \<Rightarrow> real" where
  "constant_draws c t n = c"

text \<open>An operation between a scalar and an array applies to every cell.\<close>

definition elementwise :: "(fval \<Rightarrow> fval) \<Rightarrow> matrix \<Rightarrow> matrix" where
  "elementwise f m = map (map f) m"

text \<open>
  \<^verbatim>\<open>numpy.cumsum(m, axis=0)\<close>: row \<open>t\<close> of the result is the sum of the rows
  \<open>0..t\<close>, accumulated in order of time.
\<close>

fun cumsum_from :: "fval list \<Rightarrow> matrix \<Rightarrow> matrix" where
  "cumsum_from acc [] = []"
| "cumsum_from acc (r # rs) =
     (let acc' = map (\<lambda>(a, b). fadd a b) (zip acc r) in acc' # cumsum_from acc' rs)"

fun cumsum :: "matrix \<Rightarrow> matrix" where
  "cumsum [] = []"
| "cumsum (r # rs) = r # cumsum_from r rs"

text \<open>
  \<^verbatim>\<open>MonteCarloGBMSimulator.simulate\<close>: returns the instance with the path matrix
  stored, and the matrix.
\<close>

definition simulate :: "(nat \<Rightarrow> nat \<Rightarrow> real) \<Rightarrow> simulator \<Rightarrow> error + simulator \<times> matrix" where
  "simulate z self =
     (let dt = Fin 1;
          drift = fmul (fsub (mu self) (fmul (Fin 0.5) (fmul (sigma self) (sigma self)))) dt
      in case randn z (n_days self) (n_simulations self) of
           Inl e \<Rightarrow> Inl e
         | Inr draws \<Rightarrow>
             (let shock = elementwise (\<lambda>x. fmul (fmul (sigma self) x) (fsqrt dt)) draws;
                  log_returns = elementwise (\<lambda>x. fadd drift x) shock;
                  cumulative_returns = cumsum log_returns;
                  price_paths =
                    elementwise (\<lambda>x. fmul (initial_capital self) (fexp x)) cumulative_returns
              in Inr (self\<lparr>simulated_paths := Some price_paths\<rparr>, price_paths)))"

section \<open>Summary\<close>

text \<open>\<^verbatim>\<open>m[-1]\<close>: the last row, \<^verbatim>\<open>IndexError\<close> on an array of no rows.\<close>

definition last_row :: "matrix \<Rightarrow> error + fval list" where
  "last_row m = (if m = [] then Inl IndexError else Inr (last m))"

text \<open>numpy's minimum and maximum of two numbers: NaN if either is.\<close>

definition fminimum :: "fval \<Rightarrow> fval \<Rightarrow> fval" where
  "fminimum a b = (if a = NaN \<or> b = NaN then NaN else if fle a b then a else b)"

definition fmaximum :: "fval \<Rightarrow> fval \<Rightarrow> fval" where
  "fmaximum a b = (if a = NaN \<or> b = NaN then NaN else if fle a b then b else a)"

text \<open>\<^verbatim>\<open>ndarray.min()\<close> and \<^verbatim>\<open>ndarray.max()\<close> raise on an empty array.\<close>

definition ndarray_min :: "fval list \<Rightarrow> error + fval" where
  "ndarray_min xs =
     (case xs of [] \<Rightarrow> Inl (ValueError Zero_size_reduction) | x # ys \<Rightarrow> Inr (foldl fminimum x ys))"

definition ndarray_max :: "fval list \<Rightarrow> error + fval" where
  "ndarray_max xs =
     (case xs of [] \<Rightarrow> Inl (ValueError Zero_size_reduction) | x # ys \<Rightarrow> Inr (foldl fmaximum x ys))"

definition ndarray_mean :: "fval list \<Rightarrow> fval" where
  "ndarray_mean xs = fdiv (fsum xs) (Fin (real (length xs)))"

text \<open>
  \<^verbatim>\<open>ndarray.std()\<close>, with numpy's default of no delta degree of freedom: the root
  of the mean of the squared deviations from the mean.
\<close>

definition ndarray_std :: "fval list \<Rightarrow> fval" where
  "ndarray_std xs =
     (let rcount = length xs; ddof = 0;
          arrmean = fdiv (fsum xs) (Fin (real rcount));
          x = map (\<lambda>v. fsub v arrmean) xs;
          x2 = map (\<lambda>d. fmul d d) x
      in fsqrt (fdiv (fsum x2) (Fin (real (max (rcount - ddof) 0)))))"

fun finsort :: "fval \<Rightarrow> fval list \<Rightarrow> fval list" where
  "finsort x [] = [x]"
| "finsort x (y # ys) = (if fle x y then x # y # ys else y # finsort x ys)"

definition fsort :: "fval list \<Rightarrow> fval list" where
  "fsort xs = foldr finsort xs []"

text \<open>numpy's linear interpolation between two order statistics.\<close>

definition lerp :: "fval \<Rightarrow> fval \<Rightarrow> real \<Rightarrow> fval" where
  "lerp a b t =
     (let diff_b_a = fsub b a
      in if 0.5 \<le> t then fsub b (fmul diff_b_a (Fin (1 - t)))
         else fadd a (fmul diff_b_a (Fin t)))"

text \<open>
  \<^verbatim>\<open>numpy.percentile(a, q)\<close> with the default linear method: NaN if the array
  holds one; else the position \<open>(n - 1) * q / 100\<close> in the sorted array, interpolated
  between its two neighbours. \<^verbatim>\<open>summary\<close> never reaches it with an empty array,
  which is NaN here.
\<close>

definition percentile :: "fval list \<Rightarrow> real \<Rightarrow> fval" where
  "percentile a q =
     (if a = [] \<or> NaN \<in> set a then NaN
      else let arr = fsort a; n = length a;
               virtual_index = real (n - 1) * (q / 100);
               previous_index = nat \<lfloor>virtual_index\<rfloor>;
               next_index = min (previous_index + 1) (n - 1);
               gamma = virtual_index - real previous_index
           in lerp (arr ! previous_index) (arr ! next_index) gamma)"

text \<open>The lines \<^verbatim>\<open>summary\<close> prints, each with the number it formats.\<close>

datatype line =
    Title_summary
  | Line_initial_capital fval
  | Line_days int
  | Line_simulations int
  | Title_distribution
  | Line_min fval
  | Line_max fval
  | Line_mean fval
  | Line_std_dev fval
  | Line_percentile_5 fval
  | Line_percentile_80 fval

text \<open>
  \<^verbatim>\<open>MonteCarloGBMSimulator.summary\<close>: the instance after the call, the lines
  printed up to the end or to the exception, and the exception raised, if any. Three
  lines are printed before the check for a stored path matrix.
\<close>

definition summary :: "simulator \<Rightarrow> simulator \<times> line list \<times> error option" where
  "summary self =
     (let out = [Title_summary, Line_initial_capital (initial_capital self),
                 Line_days (n_days self), Line_simulations (n_simulations self)]
      in case simulated_paths self of
           None \<Rightarrow> (self, out, Some (ValueError Run_simulate_before_summary))
         | Some paths \<Rightarrow>
             (case last_row paths of
                Inl e \<Rightarrow> (self, out, Some e)
              | Inr final_vals \<Rightarrow>
                  (case ndarray_min final_vals of
                     Inl e \<Rightarrow> (self, out @ [Title_distribution], Some e)
                   | Inr lo \<Rightarrow>
                       (case ndarray_max final_vals of
                          Inl e \<Rightarrow> (self, out @ [Title_distribution, Line_min lo], Some e)
                        | Inr hi \<Rightarrow>
                            (self,
                             out @ [Title_distribution, Line_min lo, Line_max hi,
                                    Line_mean (ndarray_mean final_vals),
                                    Line_std_dev (ndarray_std final_vals),
                                    Line_percentile_5 (percentile final_vals 5),
                                    Line_percentile_80 (percentile final_vals 80)],
                             None)))))"

section \<open>Statistics as the specification words them\<close>

text \<open>
  The arithmetic mean, the sum of the squared deviations from it, and the two standard
  deviations the specification names: the sample one (divisor \<open>N - 1\<close>) and the
  population one (divisor \<open>N\<close>). The sample one divides in the arithmetic of the code,
  where \<open>0 / 0\<close> is NaN: that is its value on a single number.
\<close>

definition mean_of :: "real list \<Rightarrow> real" where
  "mean_of xs = sum_list xs / real (length xs)"

definition sum_sq_dev :: "real list \<Rightarrow> real" where
  "sum_sq_dev xs = (\<Sum>x\<leftarrow>xs. (x - mean_of xs)\<^sup>2)"

definition spec_sample_std :: "real list \<Rightarrow> fval" where
  "spec_sample_std xs = fsqrt (fdiv (Fin (sum_sq_dev xs)) (Fin (real (length xs) - 1)))"

definition spec_population_std :: "real list \<Rightarrow> real" where
  "spec_population_std xs = sqrt (sum_sq_dev xs / real (length xs))"

section \<open>Facts about the arithmetic\<close>

lemma fsum_Fin: "fsum (map Fin xs) = Fin (sum_list xs)"
  by (induction xs) simp_all

section \<open>Calibration\<close>

lemma sum_sq_dev_nonneg: "0 \<le> sum_sq_dev xs"
  unfolding sum_sq_dev_def by (rule sum_list_nonneg) auto

lemma series_mean_Fin: "xs \<noteq> [] \<Longrightarrow> series_mean (map Fin xs) = Fin (mean_of xs)"
  by (simp add: series_mean_def fsum_Fin mean_of_def)

lemma fsum_sq_dev:
  "fsum (map (\<lambda>x. fmul (fsub (Fin m) (Fin x)) (fsub (Fin m) (Fin x))) xs) = Fin (\<Sum>x\<leftarrow>xs. (x - m)\<^sup>2)"
  by (induction xs) (simp_all add: fsub_def power2_eq_square algebra_simps)

lemma series_std_Fin:
  assumes "2 \<le> length xs"
  shows "series_std (map Fin xs) = Fin (sqrt (sum_sq_dev xs / (real (length xs) - 1)))"
proof -
  have n: "real (length xs) \<noteq> 0" "real (length xs - 1) = real (length xs) - 1" "real (length xs) - 1 \<noteq> 0"
    using assms by auto
  have nn: "\<not> sum_sq_dev xs / (real (length xs) - 1) < 0"
    using sum_sq_dev_nonneg[of xs] assms by (simp add: not_less)
  have "series_std (map Fin xs) =
      fsqrt (fdiv (fsum (map (\<lambda>x. fmul (fsub (Fin (mean_of xs)) (Fin x)) (fsub (Fin (mean_of xs)) (Fin x))) xs))
        (Fin (real (length xs) - 1)))"
    using assms n by (simp add: series_std_def Let_def fsum_Fin mean_of_def comp_def)
  also have "\<dots> = fsqrt (fdiv (Fin (sum_sq_dev xs)) (Fin (real (length xs) - 1)))"
    by (simp only: fsum_sq_dev sum_sq_dev_def)
  also have "\<dots> = Fin (sqrt (sum_sq_dev xs / (real (length xs) - 1)))"
    using n nn by simp
  finally show ?thesis .
qed

lemma series_std_single: "series_std [x] = NaN"
  by (simp add: series_std_def)

lemma spec_sample_std_single: "spec_sample_std [x] = NaN"
  by (simp add: spec_sample_std_def sum_sq_dev_def mean_of_def signed_inf_def)

lemma series_std_spec:
  assumes "xs \<noteq> []"
  shows "series_std (map Fin xs) = spec_sample_std xs"
proof (cases "2 \<le> length xs")
  case True
  have "\<not> sum_sq_dev xs / (real (length xs) - 1) < 0"
    using sum_sq_dev_nonneg[of xs] True by (simp add: not_less)
  then show ?thesis using True by (simp add: series_std_Fin spec_sample_std_def)
next
  case False
  then obtain x where "xs = [x]" using assms by (cases xs; cases "tl xs") auto
  then show ?thesis by (simp add: series_std_single spec_sample_std_single)
qed


lemma map_of_columns: "map_of df c = None \<longleftrightarrow> c \<notin> set (columns df)"
  by (simp add: columns_def map_of_eq_None_iff)

lemma getitem_present:
  assumes "c \<in> set (columns df)"
  shows "\<exists>col. getitem df c = Inr col"
proof -
  have "map_of df c \<noteq> None" using assms by (simp add: map_of_columns)
  then obtain v where "map_of df c = Some v" by auto
  then show ?thesis by (simp add: getitem_def)
qed

lemma getitem_absent:
  assumes "c \<notin> set (columns df)"
  shows "getitem df c = Inl KeyError"
proof -
  have "map_of df c = None" using assms by (simp add: map_of_columns)
  then show ?thesis by (simp add: getitem_def)
qed

lemma getitem_Inr_present: "getitem df c = Inr col \<Longrightarrow> c \<in> set (columns df)"
  using getitem_absent[of c df] by auto

lemma getitem_setitem_new:
  assumes "c \<notin> set (columns df)"
  shows "getitem (setitem df c col) c = Inr col"
proof -
  have "map_of df c = None" using assms by (simp add: map_of_columns)
  then show ?thesis using assms by (simp add: getitem_def setitem_def map_add_def)
qed

lemma init_with_returns:
  assumes "getitem df ''pnl_pct'' = Inr col"
  shows "init df capital days simulations k =
    Inr (df, \<lparr> returns = dropna col, mu = series_mean (dropna col),
               sigma = fmul (series_std (dropna col)) k, initial_capital = capital,
               n_days = days, n_simulations = simulations, simulated_paths = None \<rparr>)"
  using assms getitem_Inr_present[OF assms]
  by (simp add: init_def astype_float_def Let_def)

lemma init_with_close:
  assumes "''pnl_pct'' \<notin> set (columns df)" and "getitem df ''close'' = Inr cl"
  shows "init df capital days simulations k =
    Inr (df @ [(''pnl_pct'', pct_change cl)],
         \<lparr> returns = dropna (pct_change cl), mu = series_mean (dropna (pct_change cl)),
           sigma = fmul (series_std (dropna (pct_change cl))) k, initial_capital = capital,
           n_days = days, n_simulations = simulations, simulated_paths = None \<rparr>)"
proof -
  have "''close'' \<in> set (columns df)" using assms(2) by (rule getitem_Inr_present)
  moreover have "getitem (setitem df ''pnl_pct'' (pct_change cl)) ''pnl_pct'' = Inr (pct_change cl)"
    using assms(1) by (rule getitem_setitem_new)
  moreover have "setitem df ''pnl_pct'' (pct_change cl) = df @ [(''pnl_pct'', pct_change cl)]"
    using assms(1) by (simp add: setitem_def)
  ultimately show ?thesis
    using assms by (simp add: init_def astype_float_def Let_def)
qed

lemma init_missing:
  assumes "''pnl_pct'' \<notin> set (columns df)" and "''close'' \<notin> set (columns df)"
  shows "init df capital days simulations k = Inl (ValueError Missing_column)"
  using assms by (simp add: init_def)

lemma init_returns_cases:
  assumes "init df capital days simulations k = Inr (df', self)"
  obtains col where "(if ''pnl_pct'' \<in> set (columns df) then getitem df ''pnl_pct''
                      else map_sum id pct_change (getitem df ''close'')) = Inr col"
    and "returns self = dropna col" and "mu self = series_mean (dropna col)"
    and "sigma self = fmul (series_std (dropna col)) k"
    and "getitem df' ''pnl_pct'' = Inr col"
proof (cases "''pnl_pct'' \<in> set (columns df)")
  case True
  then obtain col where c: "getitem df ''pnl_pct'' = Inr col"
    using getitem_present by blast
  show ?thesis
    using assms True c that[of col] by (auto simp add: init_with_returns[OF c])
next
  case False
  show ?thesis
  proof (cases "''close'' \<in> set (columns df)")
    case True
    then obtain cl where c: "getitem df ''close'' = Inr cl"
      using getitem_present by blast
    have "getitem (df @ [(''pnl_pct'', pct_change cl)]) ''pnl_pct'' = Inr (pct_change cl)"
      using getitem_setitem_new[OF False, of "pct_change cl"] False by (simp add: setitem_def)
    then show ?thesis
      using assms False c that[of "pct_change cl"] by (auto simp add: init_with_close[OF False c])
  next
    case c: False
    show ?thesis using assms init_missing[OF False c] by simp
  qed
qed

lemma init_from_column:
  assumes "(if ''pnl_pct'' \<in> set (columns df) then getitem df ''pnl_pct''
            else map_sum id pct_change (getitem df ''close'')) = Inr col"
  shows "\<exists>df'. init df capital days simulations k =
    Inr (df', \<lparr> returns = dropna col, mu = series_mean (dropna col),
                sigma = fmul (series_std (dropna col)) k, initial_capital = capital,
                n_days = days, n_simulations = simulations, simulated_paths = None \<rparr>)"
proof (cases "''pnl_pct'' \<in> set (columns df)")
  case True
  then have "getitem df ''pnl_pct'' = Inr col" using assms by simp
  then show ?thesis by (simp add: init_with_returns)
next
  case False
  then have m: "map_sum id pct_change (getitem df ''close'') = Inr col" using assms by simp
  then obtain cl where c: "getitem df ''close'' = Inr cl" and p: "col = pct_change cl"
    by (cases "getitem df ''close''") auto
  show ?thesis unfolding p by (simp add: init_with_close[OF False c])
qed

lemma spec_sample_std_Fin:
  assumes "2 \<le> length xs"
  shows "spec_sample_std xs = Fin (sqrt (sum_sq_dev xs / (real (length xs) - 1)))"
proof -
  have "xs \<noteq> []" using assms by auto
  then show ?thesis using series_std_Fin[OF assms] series_std_spec[of xs] by simp
qed

text \<open>
  Claim C3. On a table with distinct column names, let the return column be the
  \<^verbatim>\<open>pnl_pct\<close> column, or the percentage change of \<^verbatim>\<open>close\<close> when the table has
  no \<^verbatim>\<open>pnl_pct\<close>. If that column with its missing values dropped is a non-empty list
  \<open>xs\<close> of finite numbers, the constructor succeeds, the cleaned series it stores is
  \<open>xs\<close>, the calibrated \<open>mu\<close> is the arithmetic mean of \<open>xs\<close> and the calibrated
  \<open>sigma\<close> is the sample standard deviation of \<open>xs\<close> (divisor \<open>N - 1\<close>) times the
  volatility multiplier. On a single value the divisor is 0 and the deviation is NaN, in
  pandas as in the formula.
\<close>

theorem calibration_mean_std:
  assumes "distinct (columns df)"
    and "(if ''pnl_pct'' \<in> set (columns df) then getitem df ''pnl_pct''
          else map_sum id pct_change (getitem df ''close'')) = Inr col"
    and "dropna col = map Fin xs" and "xs \<noteq> []"
  shows "\<exists>df' self. init df capital days simulations k = Inr (df', self)
       \<and> returns self = map Fin xs
       \<and> mu self = Fin (sum_list xs / real (length xs))
       \<and> sigma self = fmul (spec_sample_std xs) k
       \<and> (2 \<le> length xs \<longrightarrow>
            sigma self = fmul (Fin (sqrt ((\<Sum>x\<leftarrow>xs. (x - sum_list xs / real (length xs))\<^sup>2)
                                          / (real (length xs) - 1)))) k)"
proof -
  from init_from_column[OF assms(2), of capital days simulations k]
  obtain df' where i: "init df capital days simulations k =
    Inr (df', \<lparr> returns = dropna col, mu = series_mean (dropna col),
                sigma = fmul (series_std (dropna col)) k, initial_capital = capital,
                n_days = days, n_simulations = simulations, simulated_paths = None \<rparr>)"
    by blast
  have m: "series_mean (dropna col) = Fin (sum_list xs / real (length xs))"
    unfolding assms(3) using assms(4) by (simp add: series_mean_Fin mean_of_def)
  have s: "series_std (dropna col) = spec_sample_std xs"
    unfolding assms(3) using assms(4) by (rule series_std_spec)
  have e: "2 \<le> length xs \<Longrightarrow> spec_sample_std xs
      = Fin (sqrt ((\<Sum>x\<leftarrow>xs. (x - sum_list xs / real (length xs))\<^sup>2) / (real (length xs) - 1)))"
    by (simp add: spec_sample_std_Fin sum_sq_dev_def mean_of_def)
  show ?thesis
    unfolding i using assms(3) m s e by auto
qed

lemma pct_change_example:
  "pct_change [Fin 100, Fin 101, Fin 99] = [NaN, Fin (1 / 100), Fin (- 2 / 101)]"
  by (simp add: pct_change_def shift_def fsub_def)

text \<open>
  Claim C3 on both branches: a table with a \<^verbatim>\<open>pnl_pct\<close> column holding a missing
  value next to a \<^verbatim>\<open>close\<close> column, and a table with prices only.
\<close>

theorem calibration_mean_std_witness:
  "(\<exists>df' self. init [(''pnl_pct'', [Fin 1, NaN, Fin 3]), (''close'', [Fin 5, Fin 6, Fin 7])]
                     (Fin 1000) 1 1 (Fin 2) = Inr (df', self)
       \<and> returns self = map Fin [1, 3] \<and> mu self = Fin 2 \<and> sigma self = Fin (sqrt 2 * 2))
   \<and> (\<exists>df' self. init [(''close'', [Fin 100, Fin 101, Fin 99])] (Fin 1000) 1 1 (Fin 2) = Inr (df', self)
       \<and> returns self = map Fin [1 / 100, - 2 / 101] \<and> mu self = Fin (- 99 / 20200)
       \<and> sigma self = fmul (spec_sample_std [1 / 100, - 2 / 101]) (Fin 2))"
proof -
  let ?a = "[(''pnl_pct'', [Fin 1, NaN, Fin 3]), (''close'', [Fin 5, Fin 6, Fin 7])]"
  let ?b = "[(''close'', [Fin 100, Fin 101, Fin 99])]"
  have a: "distinct (columns ?a)"
    "(if ''pnl_pct'' \<in> set (columns ?a) then getitem ?a ''pnl_pct''
      else map_sum id pct_change (getitem ?a ''close'')) = Inr [Fin 1, NaN, Fin 3]"
    "dropna [Fin 1, NaN, Fin 3] = map Fin [1, 3]" "[1, 3 :: real] \<noteq> []"
    by (simp_all add: columns_def getitem_def dropna_def)
  have b: "distinct (columns ?b)"
    "(if ''pnl_pct'' \<in> set (columns ?b) then getitem ?b ''pnl_pct''
      else map_sum id pct_change (getitem ?b ''close'')) = Inr [NaN, Fin (1 / 100), Fin (- 2 / 101)]"
    "dropna [NaN, Fin (1 / 100), Fin (- 2 / 101)] = map Fin [1 / 100, - 2 / 101]"
    "[1 / 100, - 2 / 101 :: real] \<noteq> []"
    by (simp_all add: columns_def getitem_def dropna_def pct_change_example)
  have 1: "\<exists>df' self. init ?a (Fin 1000) 1 1 (Fin 2) = Inr (df', self)
       \<and> returns self = map Fin [1, 3] \<and> mu self = Fin 2 \<and> sigma self = Fin (sqrt 2 * 2)"
    using calibration_mean_std[OF a, of "Fin 1000" 1 1 "Fin 2"] by auto
  have 2: "\<exists>df' self. init ?b (Fin 1000) 1 1 (Fin 2) = Inr (df', self)
       \<and> returns self = map Fin [1 / 100, - 2 / 101] \<and> mu self = Fin (- 99 / 20200)
       \<and> sigma self = fmul (spec_sample_std [1 / 100, - 2 / 101]) (Fin 2)"
    using calibration_mean_std[OF b, of "Fin 1000" 1 1 "Fin 2"] by auto
  show ?thesis using 1 2 by (rule conjI)
qed

section \<open>Construction\<close>

lemma series_mean_Nil: "series_mean [] = NaN"
  by (simp add: series_mean_def)

lemma series_std_Nil: "series_std [] = NaN"
  by (simp add: series_std_def)

lemma init_Inl_iff:
  "init df capital days simulations k = Inl e \<longleftrightarrow>
     e = ValueError Missing_column \<and> ''pnl_pct'' \<notin> set (columns df) \<and> ''close'' \<notin> set (columns df)"
proof (cases "''pnl_pct'' \<in> set (columns df)")
  case True
  then obtain col where "getitem df ''pnl_pct'' = Inr col" using getitem_present by blast
  then show ?thesis using True by (simp add: init_with_returns)
next
  case False
  show ?thesis
  proof (cases "''close'' \<in> set (columns df)")
    case True
    then obtain cl where "getitem df ''close'' = Inr cl" using getitem_present by blast
    then show ?thesis using True False by (simp add: init_with_close)
  next
    case c: False
    then show ?thesis using False by (auto simp add: init_missing)
  qed
qed

lemma init_empty_returns:
  assumes "(if ''pnl_pct'' \<in> set (columns df) then getitem df ''pnl_pct''
            else map_sum id pct_change (getitem df ''close'')) = Inr col"
    and "dropna col = []"
  shows "\<exists>df' self. init df capital days simulations k = Inr (df', self)
           \<and> returns self = [] \<and> mu self = NaN \<and> sigma self = NaN"
  using init_from_column[OF assms(1), of capital days simulations k]
  by (auto simp add: assms(2) series_mean_Nil series_std_Nil)

lemma dropna_pct_change_short:
  assumes "length cl < 2"
  shows "dropna (pct_change cl) = []"
proof (cases cl)
  case Nil
  then show ?thesis by (simp add: pct_change_def shift_def dropna_def)
next
  case (Cons x rest)
  then have "cl = [x]" using assms by simp
  then show ?thesis by (cases x) (simp_all add: pct_change_def shift_def dropna_def fsub_def)
qed

text \<open>
  Claim C4, as the code has it. The constructor raises its \<^verbatim>\<open>ValueError\<close> whenever
  the table has neither a \<^verbatim>\<open>pnl_pct\<close> nor a \<^verbatim>\<open>close\<close> column. On a table of
  float columns with distinct names that is its only error. In particular an empty cleaned
  series, and a price series of fewer than two points, raise nothing: construction
  succeeds and both calibrated parameters are NaN.
\<close>

theorem init_raises_iff:
  "(''pnl_pct'' \<notin> set (columns df) \<and> ''close'' \<notin> set (columns df)
      \<longrightarrow> init df capital days simulations k = Inl (ValueError Missing_column))
   \<and> (distinct (columns df) \<longrightarrow>
        (init df capital days simulations k = Inl e \<longleftrightarrow>
           e = ValueError Missing_column \<and> ''pnl_pct'' \<notin> set (columns df)
           \<and> ''close'' \<notin> set (columns df))
      \<and> ((if ''pnl_pct'' \<in> set (columns df) then getitem df ''pnl_pct''
            else map_sum id pct_change (getitem df ''close'')) = Inr col \<and> dropna col = []
          \<longrightarrow> (\<exists>df' self. init df capital days simulations k = Inr (df', self)
                 \<and> returns self = [] \<and> mu self = NaN \<and> sigma self = NaN))
      \<and> (''pnl_pct'' \<notin> set (columns df) \<and> getitem df ''close'' = Inr cl \<and> length cl < 2
          \<longrightarrow> (\<exists>df' self. init df capital days simulations k = Inr (df', self)
                 \<and> returns self = [] \<and> mu self = NaN \<and> sigma self = NaN)))"
proof (intro conjI impI)
  assume "''pnl_pct'' \<notin> set (columns df) \<and> ''close'' \<notin> set (columns df)"
  then show "init df capital days simulations k = Inl (ValueError Missing_column)"
    by (simp add: init_missing)
next
  show "init df capital days simulations k = Inl e \<longleftrightarrow>
           e = ValueError Missing_column \<and> ''pnl_pct'' \<notin> set (columns df)
           \<and> ''close'' \<notin> set (columns df)"
    by (rule init_Inl_iff)
next
  assume "(if ''pnl_pct'' \<in> set (columns df) then getitem df ''pnl_pct''
            else map_sum id pct_change (getitem df ''close'')) = Inr col \<and> dropna col = []"
  then show "\<exists>df' self. init df capital days simulations k = Inr (df', self)
                 \<and> returns self = [] \<and> mu self = NaN \<and> sigma self = NaN"
    using init_empty_returns[of df col] by blast
next
  assume a: "''pnl_pct'' \<notin> set (columns df) \<and> getitem df ''close'' = Inr cl \<and> length cl < 2"
  then have "(if ''pnl_pct'' \<in> set (columns df) then getitem df ''pnl_pct''
            else map_sum id pct_change (getitem df ''close'')) = Inr (pct_change cl)"
    by simp
  moreover have "dropna (pct_change cl) = []" using a by (simp add: dropna_pct_change_short)
  ultimately show "\<exists>df' self. init df capital days simulations k = Inr (df', self)
                 \<and> returns self = [] \<and> mu self = NaN \<and> sigma self = NaN"
    by (rule init_empty_returns)
qed

text \<open>
  Claim C4 at a table with neither column (the error), at a table whose only return is
  missing and at a price series of one point (no error, an empty cleaned series, NaN
  parameters).
\<close>

theorem init_raises_iff_witness:
  "init [(''open'', [Fin 1])] (Fin 1000) 1 1 (Fin 1) = Inl (ValueError Missing_column)
   \<and> distinct (columns [(''pnl_pct'', [NaN])])
   \<and> init [(''pnl_pct'', [NaN])] (Fin 1000) 1 1 (Fin 1) \<noteq> Inl (ValueError Missing_column)
   \<and> (\<exists>df' self. init [(''pnl_pct'', [NaN])] (Fin 1000) 1 1 (Fin 1) = Inr (df', self)
         \<and> returns self = [] \<and> mu self = NaN \<and> sigma self = NaN)
   \<and> distinct (columns [(''close'', [Fin 100])])
   \<and> (\<exists>df' self. init [(''close'', [Fin 100])] (Fin 1000) 1 1 (Fin 1) = Inr (df', self)
         \<and> returns self = [] \<and> mu self = NaN \<and> sigma self = NaN)"
proof -
  let ?o = "[(''open'', [Fin 1])]" and ?p = "[(''pnl_pct'', [NaN])]" and ?c = "[(''close'', [Fin 100])]"
  have 1: "init ?o (Fin 1000) 1 1 (Fin 1) = Inl (ValueError Missing_column)"
    using init_raises_iff[of ?o "Fin 1000" 1 1 "Fin 1", THEN conjunct1]
    by (simp add: columns_def)
  have dp: "distinct (columns ?p)" and dc: "distinct (columns ?c)"
    by (simp_all add: columns_def)
  note p = init_raises_iff[of ?p "Fin 1000" 1 1 "Fin 1" "ValueError Missing_column" "[NaN]",
      THEN conjunct2, rule_format, OF dp]
  have 2: "init ?p (Fin 1000) 1 1 (Fin 1) \<noteq> Inl (ValueError Missing_column)"
    using p[THEN conjunct1] by (simp add: columns_def)
  have 3: "\<exists>df' self. init ?p (Fin 1000) 1 1 (Fin 1) = Inr (df', self)
         \<and> returns self = [] \<and> mu self = NaN \<and> sigma self = NaN"
    using p[THEN conjunct2, THEN conjunct1] by (simp add: columns_def getitem_def dropna_def)
  note c = init_raises_iff[of ?c "Fin 1000" 1 1 "Fin 1" _ _ "[Fin 100]",
      THEN conjunct2, rule_format, OF dc]
  have 4: "\<exists>df' self. init ?c (Fin 1000) 1 1 (Fin 1) = Inr (df', self)
         \<and> returns self = [] \<and> mu self = NaN \<and> sigma self = NaN"
    using c[THEN conjunct2, THEN conjunct2] by (simp add: columns_def getitem_def)
  show ?thesis using 1 dp 2 3 dc 4 by (intro conjI)
qed

text \<open>
  Claim C4 as the specification states it fails on a \<^verbatim>\<open>pnl_pct\<close> column with no
  row and on a price series of a single point: both constructions succeed.
\<close>

theorem init_empty_series_counterexample:
  "init [(''pnl_pct'', [])] (Fin 1000) 1 1 (Fin 1) =
     Inr ([(''pnl_pct'', [])],
          \<lparr> returns = [], mu = NaN, sigma = NaN, initial_capital = Fin 1000,
            n_days = 1, n_simulations = 1, simulated_paths = None \<rparr>)
   \<and> init [(''close'', [Fin 100])] (Fin 1000) 1 1 (Fin 1) =
     Inr ([(''close'', [Fin 100]), (''pnl_pct'', [NaN])],
          \<lparr> returns = [], mu = NaN, sigma = NaN, initial_capital = Fin 1000,
            n_days = 1, n_simulations = 1, simulated_paths = None \<rparr>)"
  by (simp add: init_def getitem_def setitem_def columns_def pct_change_def shift_def
      dropna_def astype_float_def series_mean_def series_std_def fsub_def)

text \<open>
  Claim C5 at a table with a \<^verbatim>\<open>close\<close> column and no \<^verbatim>\<open>pnl_pct\<close> column: after
  the constructor the caller's table has a \<^verbatim>\<open>pnl_pct\<close> column it did not have.
\<close>

theorem init_mutates_table:
  "map_sum id fst (init [(''close'', [Fin 100, Fin 101, Fin 99])] (Fin 1000) 1 1 (Fin 1)) =
     Inr [(''close'', [Fin 100, Fin 101, Fin 99]),
          (''pnl_pct'', [NaN, Fin (1 / 100), Fin (- 2 / 101)])]"
  by (simp add: init_def getitem_def setitem_def columns_def pct_change_example Let_def)

text \<open>
  Claim C6, as the code has it. The constructor checks none of the configuration: whether
  it raises, and what, is the same for any two configurations on the same table. On a
  table of float columns with distinct names that has a \<^verbatim>\<open>pnl_pct\<close> or a
  \<^verbatim>\<open>close\<close> column it succeeds for every initial capital, number of days, number of
  simulations and volatility multiplier, stores the first three as given and scales the
  standard deviation by the multiplier as given.
\<close>

theorem init_accepts_any_configuration:
  "(init df capital days simulations k = Inl e \<longleftrightarrow> init df capital' days' simulations' k' = Inl e)
   \<and> (distinct (columns df) \<and> (''pnl_pct'' \<in> set (columns df) \<or> ''close'' \<in> set (columns df))
        \<longrightarrow> (\<exists>df' self. init df capital days simulations k = Inr (df', self)
               \<and> initial_capital self = capital \<and> n_days self = days
               \<and> n_simulations self = simulations
               \<and> sigma self = fmul (series_std (returns self)) k))"
proof (intro conjI impI)
  show "init df capital days simulations k = Inl e \<longleftrightarrow> init df capital' days' simulations' k' = Inl e"
    by (simp add: init_Inl_iff)
next
  assume a: "distinct (columns df) \<and> (''pnl_pct'' \<in> set (columns df) \<or> ''close'' \<in> set (columns df))"
  show "\<exists>df' self. init df capital days simulations k = Inr (df', self)
               \<and> initial_capital self = capital \<and> n_days self = days
               \<and> n_simulations self = simulations
               \<and> sigma self = fmul (series_std (returns self)) k"
  proof (cases "''pnl_pct'' \<in> set (columns df)")
    case True
    then obtain col where "getitem df ''pnl_pct'' = Inr col" using getitem_present by blast
    then show ?thesis by (simp add: init_with_returns)
  next
    case False
    then have "''close'' \<in> set (columns df)" using a by simp
    then obtain cl where "getitem df ''close'' = Inr cl" using getitem_present by blast
    then show ?thesis using False by (simp add: init_with_close)
  qed
qed

text \<open>
  Claim C6 at a price table with zero capital, a negative number of days, no simulation
  and a negative multiplier; and at a table with neither column, where the error is the
  one of any other configuration.
\<close>

theorem init_accepts_any_configuration_witness:
  "distinct (columns [(''close'', [Fin 100, Fin 101, Fin 99])])
   \<and> ''close'' \<in> set (columns [(''close'', [Fin 100, Fin 101, Fin 99])])
   \<and> (\<exists>df' self. init [(''close'', [Fin 100, Fin 101, Fin 99])] (Fin 0) (- 3) 0 (Fin (- 2)) = Inr (df', self)
         \<and> initial_capital self = Fin 0 \<and> n_days self = - 3 \<and> n_simulations self = 0
         \<and> sigma self = fmul (series_std (returns self)) (Fin (- 2)))
   \<and> init [(''open'', [Fin 1])] (Fin 0) (- 3) 0 (Fin (- 2)) = Inl (ValueError Missing_column)"
proof -
  let ?df = "[(''close'', [Fin 100, Fin 101, Fin 99])]"
  have h: "distinct (columns ?df)" "''close'' \<in> set (columns ?df)"
    by (simp_all add: columns_def)
  have 1: "\<exists>df' self. init ?df (Fin 0) (- 3) 0 (Fin (- 2)) = Inr (df', self)
         \<and> initial_capital self = Fin 0 \<and> n_days self = - 3 \<and> n_simulations self = 0
         \<and> sigma self = fmul (series_std (returns self)) (Fin (- 2))"
    using h init_accepts_any_configuration[of ?df "Fin 0" "- 3" 0 "Fin (- 2)", THEN conjunct2]
    by blast
  have "init [(''open'', [Fin 1])] (Fin 1000) 252 50 (Fin 1) = Inl (ValueError Missing_column)"
    by (simp add: init_def columns_def)
  then have 2: "init [(''open'', [Fin 1])] (Fin 0) (- 3) 0 (Fin (- 2)) = Inl (ValueError Missing_column)"
    using init_accepts_any_configuration[of "[(''open'', [Fin 1])]" "Fin 0" "- 3" 0 "Fin (- 2)"
        "ValueError Missing_column" "Fin 1000" 252 50 "Fin 1", THEN conjunct1]
    by simp
  show ?thesis using h 1 2 by (intro conjI)
qed

text \<open>
  Claim C6 as the specification states it fails: negative capital, zero days, a negative
  number of simulations and a negative multiplier are all accepted, and \<open>sigma\<close> comes
  out negative.
\<close>

theorem init_invalid_configuration_counterexample:
  "init [(''pnl_pct'', [Fin 1, Fin 3])] (Fin (- 1000)) 0 (- 5) (Fin (- 1)) =
     Inr ([(''pnl_pct'', [Fin 1, Fin 3])],
          \<lparr> returns = [Fin 1, Fin 3], mu = Fin 2, sigma = Fin (- sqrt 2),
            initial_capital = Fin (- 1000), n_days = 0, n_simulations = - 5,
            simulated_paths = None \<rparr>)"
  by (simp add: init_def getitem_def columns_def dropna_def astype_float_def
      series_mean_def series_std_def fsub_def Let_def)




section \<open>Path generation: the closed form\<close>





lemma simulate_Inl_iff:
  "simulate z self = Inl e \<longleftrightarrow>
     e = ValueError Negative_dimensions \<and> (n_days self < 0 \<or> n_simulations self < 0)"
  by (auto simp add: simulate_def randn_def Let_def)






section \<open>Summary statistics\<close>

lemma ndarray_min_nonempty: "xs \<noteq> [] \<Longrightarrow> \<exists>lo. ndarray_min xs = Inr lo"
  by (cases xs) (simp_all add: ndarray_min_def)

lemma ndarray_max_nonempty: "xs \<noteq> [] \<Longrightarrow> \<exists>hi. ndarray_max xs = Inr hi"
  by (cases xs) (simp_all add: ndarray_max_def)

lemma ndarray_mean_Fin: "xs \<noteq> [] \<Longrightarrow> ndarray_mean (map Fin xs) = Fin (mean_of xs)"
  by (simp add: ndarray_mean_def fsum_Fin mean_of_def)

lemma fsum_sq_dev_from: 
  "fsum (map (\<lambda>x. fmul (fsub (Fin x) (Fin m)) (fsub (Fin x) (Fin m))) xs) = Fin (\<Sum>x\<leftarrow>xs. (x - m)\<^sup>2)"
  by (induction xs) (simp_all add: fsub_def power2_eq_square algebra_simps)

lemma ndarray_std_Fin:
  assumes "xs \<noteq> []"
  shows "ndarray_std (map Fin xs) = Fin (spec_population_std xs)"
proof -
  have n: "real (length xs) \<noteq> 0" using assms by simp
  have nn: "\<not> sum_sq_dev xs / real (length xs) < 0"
    using sum_sq_dev_nonneg[of xs] by (simp add: not_less)
  have "ndarray_std (map Fin xs) =
      fsqrt (fdiv (fsum (map (\<lambda>x. fmul (fsub (Fin x) (Fin (mean_of xs))) (fsub (Fin x) (Fin (mean_of xs)))) xs))
        (Fin (real (length xs))))"
    using n by (simp add: ndarray_std_def Let_def fsum_Fin mean_of_def comp_def)
  also have "\<dots> = fsqrt (fdiv (Fin (sum_sq_dev xs)) (Fin (real (length xs))))"
    by (simp only: fsum_sq_dev_from sum_sq_dev_def)
  also have "\<dots> = Fin (spec_population_std xs)"
    using n nn by (simp add: spec_population_std_def)
  finally show ?thesis .
qed

lemma population_differs_from_sample:
  assumes "xs \<noteq> []" and "0 < sum_sq_dev xs"
  shows "Fin (spec_population_std xs) \<noteq> spec_sample_std xs"
proof (cases "2 \<le> length xs")
  case True
  have lt: "sum_sq_dev xs / real (length xs) < sum_sq_dev xs / (real (length xs) - 1)"
  proof (rule divide_strict_left_mono)
    show "real (length xs) - 1 < real (length xs)" by simp
    show "0 < sum_sq_dev xs" by (rule assms(2))
    have "0 < real (length xs)" and "0 < real (length xs) - 1" using True by auto
    then show "0 < real (length xs) * (real (length xs) - 1)" by (rule mult_pos_pos)
  qed
  have "spec_sample_std xs = Fin (sqrt (sum_sq_dev xs / (real (length xs) - 1)))"
    using True series_std_Fin[of xs] series_std_spec[OF assms(1)] by simp
  moreover have "sqrt (sum_sq_dev xs / real (length xs)) \<noteq> sqrt (sum_sq_dev xs / (real (length xs) - 1))"
    using lt assms(2) by simp
  ultimately show ?thesis by (simp add: spec_population_std_def)
next
  case False
  then obtain x where "xs = [x]" using assms(1) by (cases xs; cases "tl xs") auto
  then show ?thesis by (simp add: spec_sample_std_single)
qed

text \<open>
  Claim C9. On a stored path matrix whose last row is a non-empty list of finite numbers,
  \<^verbatim>\<open>summary\<close> raises nothing and the standard deviation it prints is the root of
  the sum of the squared deviations from the mean over \<open>N\<close>, the population standard
  deviation. It is not the sample one (divisor \<open>N - 1\<close>) whenever the values are not all
  equal.
\<close>

theorem summary_std_population:
  assumes "simulated_paths self = Some paths" and "paths \<noteq> []"
    and "last paths = map Fin xs" and "xs \<noteq> []"
  shows "(\<exists>lo hi p5 p80. summary self =
            (self,
             [Title_summary, Line_initial_capital (initial_capital self), Line_days (n_days self),
              Line_simulations (n_simulations self), Title_distribution, Line_min lo, Line_max hi,
              Line_mean (Fin (mean_of xs)),
              Line_std_dev (Fin (sqrt ((\<Sum>x\<leftarrow>xs. (x - mean_of xs)\<^sup>2) / real (length xs)))),
              Line_percentile_5 p5, Line_percentile_80 p80],
             None))
       \<and> (0 < sum_sq_dev xs \<longrightarrow>
            Fin (sqrt ((\<Sum>x\<leftarrow>xs. (x - mean_of xs)\<^sup>2) / real (length xs))) \<noteq> spec_sample_std xs)"
proof -
  have ne: "map Fin xs \<noteq> []" using assms(4) by simp
  obtain lo hi where lo: "ndarray_min (map Fin xs) = Inr lo" and hi: "ndarray_max (map Fin xs) = Inr hi"
    using ndarray_min_nonempty[OF ne] ndarray_max_nonempty[OF ne] by blast
  have e: "sqrt ((\<Sum>x\<leftarrow>xs. (x - mean_of xs)\<^sup>2) / real (length xs)) = spec_population_std xs"
    by (simp add: spec_population_std_def sum_sq_dev_def)
  have "summary self =
      (self,
       [Title_summary, Line_initial_capital (initial_capital self), Line_days (n_days self),
        Line_simulations (n_simulations self), Title_distribution, Line_min lo, Line_max hi,
        Line_mean (Fin (mean_of xs)), Line_std_dev (Fin (spec_population_std xs)),
        Line_percentile_5 (percentile (map Fin xs) 5), Line_percentile_80 (percentile (map Fin xs) 80)],
       None)"
    using assms lo hi
    by (simp add: summary_def last_row_def Let_def ndarray_mean_Fin ndarray_std_Fin)
  then show ?thesis
    unfolding e using population_differs_from_sample[OF assms(4)] by blast
qed


text \<open>
  Claim C9 at the terminal row \<open>[1, 3]\<close>: the mean is 2 and the printed standard
  deviation is 1, where the sample one is \<open>sqrt 2\<close>.
\<close>

theorem summary_std_population_witness:
  "simulated_paths \<lparr> returns = [], mu = Fin 0, sigma = Fin 1, initial_capital = Fin 1000, n_days = 2,
                      n_simulations = 2, simulated_paths = Some [[Fin 1, Fin 2], [Fin 1, Fin 3]] \<rparr>
     = Some [[Fin 1, Fin 2], [Fin 1, Fin 3]]
   \<and> last [[Fin 1, Fin 2], [Fin 1, Fin 3]] = map Fin [1, 3]
   \<and> (\<exists>lo hi p5 p80.
         summary \<lparr> returns = [], mu = Fin 0, sigma = Fin 1, initial_capital = Fin 1000, n_days = 2,
                   n_simulations = 2, simulated_paths = Some [[Fin 1, Fin 2], [Fin 1, Fin 3]] \<rparr>
         = (\<lparr> returns = [], mu = Fin 0, sigma = Fin 1, initial_capital = Fin 1000, n_days = 2,
               n_simulations = 2, simulated_paths = Some [[Fin 1, Fin 2], [Fin 1, Fin 3]] \<rparr>,
            [Title_summary, Line_initial_capital (Fin 1000), Line_days 2, Line_simulations 2,
             Title_distribution, Line_min lo, Line_max hi, Line_mean (Fin 2), Line_std_dev (Fin 1),
             Line_percentile_5 p5, Line_percentile_80 p80],
            None))
   \<and> Fin 1 \<noteq> spec_sample_std [1, 3]"
proof -
  let ?s = "\<lparr> returns = [], mu = Fin 0, sigma = Fin 1, initial_capital = Fin 1000, n_days = 2,
              n_simulations = 2, simulated_paths = Some [[Fin 1, Fin 2], [Fin 1, Fin 3]] \<rparr>"
  have h: "simulated_paths ?s = Some [[Fin 1, Fin 2], [Fin 1, Fin 3]]"
    "[[Fin 1, Fin 2], [Fin 1, Fin 3]] \<noteq> []"
    "last [[Fin 1, Fin 2], [Fin 1, Fin 3]] = map Fin [1, 3]" "[1, 3 :: real] \<noteq> []"
    by simp_all
  have m: "mean_of [1, 3] = 2" by (simp add: mean_of_def)
  have q: "sum_sq_dev [1, 3] = 2" by (simp add: sum_sq_dev_def m)
  have r: "sqrt ((\<Sum>x\<leftarrow>[1, 3]. (x - mean_of [1, 3])\<^sup>2) / real (length [1, 3 :: real])) = 1"
    by (simp add: m)
  show ?thesis
    using h(1,3) summary_std_population[OF h] unfolding r m q by simp
qed


section \<open>Shape of the path matrix\<close>

lemma cumsum_from_length: "length (cumsum_from acc m) = length m"
  by (induction m arbitrary: acc) (simp_all add: Let_def)

lemma cumsum_from_rows:
  assumes "length acc = N" and "\<forall>row \<in> set m. length row = N"
  shows "\<forall>row \<in> set (cumsum_from acc m). length row = N"
  using assms
proof (induction m arbitrary: acc)
  case Nil
  show ?case by simp
next
  case (Cons r m)
  let ?a = "map (\<lambda>(a, b). fadd a b) (zip acc r)"
  have "length r = N" using Cons.prems(2) by simp
  then have l: "length ?a = N" using Cons.prems(1) by simp
  have "\<forall>row \<in> set m. length row = N" using Cons.prems(2) by simp
  from Cons.IH[OF l this] l show ?case by (simp add: Let_def)
qed

lemma cumsum_shape:
  assumes "\<forall>row \<in> set m. length row = N"
  shows "length (cumsum m) = length m \<and> (\<forall>row \<in> set (cumsum m). length row = N)"
proof (cases m)
  case Nil
  then show ?thesis by simp
next
  case (Cons r rs)
  have "length r = N" and "\<forall>row \<in> set rs. length row = N"
    using assms Cons by simp_all
  then show ?thesis
    using cumsum_from_rows[of r N rs] by (simp add: Cons cumsum_from_length)
qed

lemma elementwise_shape:
  "length (elementwise f m) = length m
   \<and> ((\<forall>row \<in> set m. length row = N) \<longrightarrow> (\<forall>row \<in> set (elementwise f m). length row = N))"
  by (simp add: elementwise_def)

lemma simulate_Inr:
  assumes "0 \<le> n_days self" and "0 \<le> n_simulations self"
  shows "simulate z self =
    (let paths = elementwise (\<lambda>x. fmul (initial_capital self) (fexp x))
       (cumsum (elementwise (\<lambda>x. fadd (fmul (fsub (mu self) (fmul (Fin 0.5) (fmul (sigma self) (sigma self)))) (Fin 1)) x)
          (elementwise (\<lambda>x. fmul (fmul (sigma self) x) (fsqrt (Fin 1)))
             (map (\<lambda>t. map (\<lambda>n. Fin (z t n)) [0..<nat (n_simulations self)]) [0..<nat (n_days self)]))))
     in Inr (self\<lparr>simulated_paths := Some paths\<rparr>, paths))"
proof -
  have r: "randn z (n_days self) (n_simulations self)
      = Inr (map (\<lambda>t. map (\<lambda>n. Fin (z t n)) [0..<nat (n_simulations self)]) [0..<nat (n_days self)])"
    using assms by (simp add: randn_def)
  show ?thesis
    unfolding simulate_def Let_def r sum.case ..
qed

lemma simulate_shape:
  assumes "simulate z self = Inr (self', paths)"
  shows "self' = self\<lparr>simulated_paths := Some paths\<rparr> \<and> 0 \<le> n_days self \<and> 0 \<le> n_simulations self
       \<and> length paths = nat (n_days self)
       \<and> (\<forall>row \<in> set paths. length row = nat (n_simulations self))"
proof -
  have "\<not> (n_days self < 0 \<or> n_simulations self < 0)"
    using assms simulate_Inl_iff[of z self "ValueError Negative_dimensions"] by auto
  then have d: "0 \<le> n_days self" "0 \<le> n_simulations self" by simp_all
  let ?N = "nat (n_simulations self)"
  let ?draws = "map (\<lambda>t. map (\<lambda>n. Fin (z t n)) [0..<?N]) [0..<nat (n_days self)]"
  let ?shock = "elementwise (\<lambda>x. fmul (fmul (sigma self) x) (fsqrt (Fin 1))) ?draws"
  let ?lr = "elementwise (\<lambda>x. fadd (fmul (fsub (mu self) (fmul (Fin 0.5) (fmul (sigma self) (sigma self)))) (Fin 1)) x) ?shock"
  let ?p = "elementwise (\<lambda>x. fmul (initial_capital self) (fexp x)) (cumsum ?lr)"
  have e: "simulate z self = Inr (self\<lparr>simulated_paths := Some ?p\<rparr>, ?p)"
    by (simp only: simulate_Inr[OF d] Let_def)
  note pe = assms[unfolded e, unfolded sum.inject prod.inject]
  have p: "paths = ?p" by (rule pe[THEN conjunct2, symmetric])
  have s: "self' = self\<lparr>simulated_paths := Some paths\<rparr>"
    unfolding p by (rule pe[THEN conjunct1, symmetric])
  have 0: "length ?draws = nat (n_days self)" "\<forall>row \<in> set ?draws. length row = ?N"
    by simp_all
  have 1: "length ?shock = nat (n_days self)" "\<forall>row \<in> set ?shock. length row = ?N"
    using 0 elementwise_shape[of _ ?draws ?N] by simp_all
  have 2: "length ?lr = nat (n_days self)" "\<forall>row \<in> set ?lr. length row = ?N"
    using 1 elementwise_shape[of _ ?shock ?N] by simp_all
  have 3: "length (cumsum ?lr) = nat (n_days self)" "\<forall>row \<in> set (cumsum ?lr). length row = ?N"
    using 2 cumsum_shape[OF 2(2)] by simp_all
  have 4: "length ?p = nat (n_days self)" "\<forall>row \<in> set ?p. length row = ?N"
    using 3 elementwise_shape[of _ "cumsum ?lr" ?N] by simp_all
  show ?thesis using s d 4 unfolding p[symmetric] by simp
qed

section \<open>Failure and completion of the path generation\<close>

lemma exp_2_ge_5: "5 \<le> exp (2 :: real)"
  using exp_lower_Taylor_quadratic[of "2 :: real"] by simp

lemma exp_1000_ge: "(5 :: real) ^ 500 \<le> exp 1000"
proof -
  have "exp (1000 :: real) = exp (of_nat 500 * 2)" by simp
  also have "\<dots> = exp 2 ^ 500" by (rule exp_of_nat_mult)
  finally have e: "exp (1000 :: real) = exp 2 ^ 500" .
  show ?thesis unfolding e by (rule power_mono) (use exp_2_ge_5 in simp_all)
qed

lemma float64_max_less: "float64_max < 2 * 2 ^ 1023"
  unfolding float64_max_def
proof (rule mult_strict_right_mono)
  show "2 - 1 / 2 ^ 52 < (2 :: real)" by simp
  show "0 < (2 :: real) ^ 1023" by (rule zero_less_power) simp
qed

lemma pow_2_1024_less: "(2 :: real) * 2 ^ 1023 < 5 ^ 500"
proof -
  have n: "Suc 1023 = 128 * 8" and m: "(62 :: nat) * 8 \<le> 500" by simp_all
  have "(2 :: real) * 2 ^ 1023 = 2 ^ Suc 1023" by (simp only: power_Suc)
  also have "\<dots> = (2 ^ 128) ^ 8" unfolding n by (rule power_mult)
  also have "\<dots> < (5 ^ 62) ^ 8"
  proof (rule power_strict_mono)
    show "(2 :: real) ^ 128 < 5 ^ 62" by simp
    show "0 \<le> (2 :: real) ^ 128" by (rule zero_le_power) simp
    show "0 < (8 :: nat)" by simp
  qed
  also have "\<dots> = (5 :: real) ^ (62 * 8)" by (rule power_mult[symmetric])
  also have "\<dots> \<le> 5 ^ 500" using m by (rule power_increasing) simp
  finally show ?thesis .
qed

lemma exp_1000_overflows: "as_float64 (Fin (1000 * exp 1000)) = PInf"
proof -
  have "exp (1000 :: real) = 1 * exp 1000" by simp
  also have "\<dots> \<le> 1000 * exp 1000"
    by (rule mult_right_mono) simp_all
  finally have l: "exp (1000 :: real) \<le> 1000 * exp 1000" .
  note float64_max_less
  also note pow_2_1024_less
  also note exp_1000_ge
  also note l
  finally have "float64_max < 1000 * exp 1000" .
  then show ?thesis unfolding as_float64_def by simp
qed

lemma simulate_Inr_ex:
  assumes "0 \<le> n_days self" and "0 \<le> n_simulations self"
  shows "\<exists>paths. simulate z self = Inr (self\<lparr>simulated_paths := Some paths\<rparr>, paths)
           \<and> length paths = nat (n_days self)
           \<and> (\<forall>row \<in> set paths. length row = nat (n_simulations self))"
proof -
  obtain s' paths where e: "simulate z self = Inr (s', paths)"
    unfolding simulate_Inr[OF assms] Let_def by blast
  from simulate_shape[OF e] show ?thesis using e by auto
qed

text \<open>
  Claim C7, as the code has it. For dimensions within numpy's size limit,
  \<^verbatim>\<open>simulate\<close> fails exactly when the number of days or of simulations is negative,
  with numpy's \<^verbatim>\<open>ValueError\<close> for a negative dimension; a zero dimension is accepted.
  With non-negative dimensions it returns and stores a matrix of \<open>T\<close> rows of \<open>N\<close> cells,
  whatever the calibrated parameters. Nothing is said of the cells being finite.
\<close>

theorem simulate_fails_iff:
  "within_size_limit (n_days self) (n_simulations self) \<longrightarrow>
     ((\<exists>e. simulate z self = Inl e) \<longleftrightarrow> n_days self < 0 \<or> n_simulations self < 0)
   \<and> (simulate z self = Inl e \<longrightarrow> e = ValueError Negative_dimensions)
   \<and> (0 \<le> n_days self \<and> 0 \<le> n_simulations self
        \<longrightarrow> (\<exists>paths. simulate z self = Inr (self\<lparr>simulated_paths := Some paths\<rparr>, paths)
               \<and> length paths = nat (n_days self)
               \<and> (\<forall>row \<in> set paths. length row = nat (n_simulations self))))"
proof (intro conjI impI)
  show "(\<exists>e. simulate z self = Inl e) \<longleftrightarrow> n_days self < 0 \<or> n_simulations self < 0"
    by (simp add: simulate_Inl_iff)
  show "e = ValueError Negative_dimensions" if "simulate z self = Inl e"
    using that by (simp add: simulate_Inl_iff)
next
  assume "0 \<le> n_days self \<and> 0 \<le> n_simulations self"
  then show "\<exists>paths. simulate z self = Inr (self\<lparr>simulated_paths := Some paths\<rparr>, paths)
               \<and> length paths = nat (n_days self)
               \<and> (\<forall>row \<in> set paths. length row = nat (n_simulations self))"
    using simulate_Inr_ex[of self z] by blast
qed

text \<open>
  Claim C7 at two days (a matrix of two rows), at zero days (no failure, an empty matrix)
  and at \<open>-1\<close> days (the \<^verbatim>\<open>ValueError\<close>).
\<close>

theorem simulate_fails_iff_witness:
  "within_size_limit 2 1 \<and> within_size_limit 0 3 \<and> within_size_limit (- 1) 3
   \<and> (\<exists>paths. simulate (constant_draws 1)
                  \<lparr> returns = [Fin 1, Fin 3], mu = Fin 2, sigma = Fin 1, initial_capital = Fin 1000,
                    n_days = 2, n_simulations = 1, simulated_paths = None \<rparr>
                = Inr (\<lparr> returns = [Fin 1, Fin 3], mu = Fin 2, sigma = Fin 1, initial_capital = Fin 1000,
                         n_days = 2, n_simulations = 1, simulated_paths = Some paths \<rparr>, paths)
         \<and> length paths = 2)
   \<and> (\<exists>paths. simulate (constant_draws 1)
                  \<lparr> returns = [Fin 1, Fin 3], mu = Fin 2, sigma = Fin 1, initial_capital = Fin 1000,
                    n_days = 0, n_simulations = 3, simulated_paths = None \<rparr>
                = Inr (\<lparr> returns = [Fin 1, Fin 3], mu = Fin 2, sigma = Fin 1, initial_capital = Fin 1000,
                         n_days = 0, n_simulations = 3, simulated_paths = Some paths \<rparr>, paths)
         \<and> length paths = 0)
   \<and> simulate (constant_draws 1)
        \<lparr> returns = [Fin 1, Fin 3], mu = Fin 2, sigma = Fin 1, initial_capital = Fin 1000,
          n_days = - 1, n_simulations = 3, simulated_paths = None \<rparr>
       = Inl (ValueError Negative_dimensions)"
proof -
  let ?t = "\<lparr> returns = [Fin 1, Fin 3], mu = Fin 2, sigma = Fin 1, initial_capital = Fin 1000,
              n_days = 2, n_simulations = 1, simulated_paths = None \<rparr>"
  let ?s = "\<lparr> returns = [Fin 1, Fin 3], mu = Fin 2, sigma = Fin 1, initial_capital = Fin 1000,
              n_days = 0, n_simulations = 3, simulated_paths = None \<rparr>"
  let ?n = "\<lparr> returns = [Fin 1, Fin 3], mu = Fin 2, sigma = Fin 1, initial_capital = Fin 1000,
              n_days = - 1, n_simulations = 3, simulated_paths = None \<rparr>"
  have w: "within_size_limit 2 1" "within_size_limit 0 3" "within_size_limit (- 1) 3"
    by (simp_all add: within_size_limit_def)
  have wt: "within_size_limit (n_days ?t) (n_simulations ?t)"
    and ws: "within_size_limit (n_days ?s) (n_simulations ?s)"
    and wn: "within_size_limit (n_days ?n) (n_simulations ?n)"
    using w by simp_all
  note t = simulate_fails_iff[of ?t "constant_draws 1", rule_format, OF wt]
  have 1: "\<exists>paths. simulate (constant_draws 1) ?t = Inr (?t\<lparr>simulated_paths := Some paths\<rparr>, paths)
      \<and> length paths = 2"
    using t[THEN conjunct2, THEN conjunct2] by auto
  note s = simulate_fails_iff[of ?s "constant_draws 1", rule_format, OF ws]
  have 2: "\<exists>paths. simulate (constant_draws 1) ?s = Inr (?s\<lparr>simulated_paths := Some paths\<rparr>, paths)
      \<and> length paths = 0"
    using s[THEN conjunct2, THEN conjunct2] by auto
  note n = simulate_fails_iff[of ?n "constant_draws 1", rule_format, OF wn]
  have "\<exists>e. simulate (constant_draws 1) ?n = Inl e"
    using n[THEN conjunct1] by simp
  then obtain e where e: "simulate (constant_draws 1) ?n = Inl e" by blast
  then have 3: "simulate (constant_draws 1) ?n = Inl (ValueError Negative_dimensions)"
    using n[of e, THEN conjunct2, THEN conjunct1] by simp
  have p1: "\<exists>paths. simulate (constant_draws 1) ?t
      = Inr (\<lparr> returns = [Fin 1, Fin 3], mu = Fin 2, sigma = Fin 1, initial_capital = Fin 1000,
               n_days = 2, n_simulations = 1, simulated_paths = Some paths \<rparr>, paths)
      \<and> length paths = 2"
    using 1 by simp
  have p2: "\<exists>paths. simulate (constant_draws 1) ?s
      = Inr (\<lparr> returns = [Fin 1, Fin 3], mu = Fin 2, sigma = Fin 1, initial_capital = Fin 1000,
               n_days = 0, n_simulations = 3, simulated_paths = Some paths \<rparr>, paths)
      \<and> length paths = 0"
    using 2 by simp
  show ?thesis using w p1 p2 3 by (intro conjI)
qed

text \<open>
  Claim C7 as the specification states it fails twice. At zero days, \<open>T < 1\<close> and
  \<^verbatim>\<open>simulate\<close> returns an empty matrix instead of failing. With \<open>mu = 1000\<close> and
  \<open>sigma = 0\<close> (the calibration of the returns \<open>[1000, 1000]\<close>), one day and one path,
  the cell is \<open>1000 * exp 1000\<close>, beyond the largest double: the cell the code stores is
  the infinity, not a finite number.
\<close>

theorem simulate_zero_days_counterexample:
  "simulate (constant_draws 0)
     \<lparr> returns = [Fin 1, Fin 3], mu = Fin 2, sigma = Fin 1, initial_capital = Fin 1000,
       n_days = 0, n_simulations = 1, simulated_paths = None \<rparr>
   = Inr (\<lparr> returns = [Fin 1, Fin 3], mu = Fin 2, sigma = Fin 1, initial_capital = Fin 1000,
            n_days = 0, n_simulations = 1, simulated_paths = Some [] \<rparr>, [])
   \<and> simulate (constant_draws 0)
     \<lparr> returns = [Fin 1000, Fin 1000], mu = Fin 1000, sigma = Fin 0, initial_capital = Fin 1000,
       n_days = 1, n_simulations = 1, simulated_paths = None \<rparr>
   = Inr (\<lparr> returns = [Fin 1000, Fin 1000], mu = Fin 1000, sigma = Fin 0, initial_capital = Fin 1000,
            n_days = 1, n_simulations = 1, simulated_paths = Some [[Fin (1000 * exp 1000)]] \<rparr>,
          [[Fin (1000 * exp 1000)]])
   \<and> as_float64 (Fin (1000 * exp 1000)) = PInf
   \<and> init [(''pnl_pct'', [Fin 1000, Fin 1000])] (Fin 1000) 1 1 (Fin 1)
   = Inr ([(''pnl_pct'', [Fin 1000, Fin 1000])],
          \<lparr> returns = [Fin 1000, Fin 1000], mu = Fin 1000, sigma = Fin 0, initial_capital = Fin 1000,
            n_days = 1, n_simulations = 1, simulated_paths = None \<rparr>)"
proof (intro conjI)
  show "as_float64 (Fin (1000 * exp 1000)) = PInf" by (rule exp_1000_overflows)
  show "init [(''pnl_pct'', [Fin 1000, Fin 1000])] (Fin 1000) 1 1 (Fin 1)
   = Inr ([(''pnl_pct'', [Fin 1000, Fin 1000])],
          \<lparr> returns = [Fin 1000, Fin 1000], mu = Fin 1000, sigma = Fin 0, initial_capital = Fin 1000,
            n_days = 1, n_simulations = 1, simulated_paths = None \<rparr>)"
    by (simp add: init_def getitem_def columns_def dropna_def astype_float_def
        series_mean_def series_std_def fsub_def Let_def)
qed (simp_all add: simulate_def randn_def elementwise_def fsub_def Let_def)

section \<open>Summary: errors and state\<close>











section \<open>The default multiplier\<close>

lemma fmul_one: "fmul x (Fin 1) = x"
  by (cases x) (simp_all add: signed_inf_def)

lemma init_default_sigma:
  assumes "init_default df capital days simulations = Inr (df', self)"
    and "returns self = map Fin xs" and "xs \<noteq> []"
  shows "sigma self = spec_sample_std xs"
proof -
  from assms(1) obtain col where r: "returns self = dropna col"
    and s: "sigma self = fmul (series_std (dropna col)) (Fin 1)"
    unfolding init_default_def by (rule init_returns_cases)
  have d: "dropna col = map Fin xs" using r assms(2) by simp
  show ?thesis
    using assms(3) unfolding s d by (simp add: fmul_one series_std_spec)
qed

end
